theory Spec2Isabelle
  imports Complex_Main
begin

section \<open>Tensors\<close>

text \<open>
  The module of \<^verbatim>\<open>brace/policy.py\<close> works on batches \<^verbatim>\<open>obs : (B, obs_dim)\<close>.
  A two-dimensional tensor is kept as its rows together with the size of its last
  dimension, so that a batch of no rows still has a shape \<open>(0, n)\<close>.
  The module is modelled twice. In the first model scalars are real numbers and the
  arithmetic is exact: it carries the properties of the structure of the computation
  (the composition of the layers, shapes, errors, which parameters an output depends on
  and what a call leaves unchanged), which hold whatever the arithmetic. The second model,
  further down, computes in binary32 with rounding, infinities and NaN: it carries the
  properties of the values the outputs take.
\<close>

record tensor =
  ncols :: nat
  rws :: "real list list"

definition shape :: "tensor \<Rightarrow> nat \<times> nat" where
  "shape t = (length (rws t), ncols t)"

definition wf_tensor :: "tensor \<Rightarrow> bool" where
  "wf_tensor t = list_all (\<lambda>r. length r = ncols t) (rws t)"

text \<open>The only failure the forward pass can meet: operand shapes that do not fit.\<close>

datatype error = ShapeError

section \<open>The layers the module is built from\<close>

text \<open>
  \<^verbatim>\<open>nn.Linear(in_features, out_features)\<close> owns a weight of shape
  \<open>(out_features, in_features)\<close> and a bias of shape \<open>(out_features)\<close>; applied to
  \<open>x\<close> it computes \<open>x W\<^sup>T + b\<close> on the last dimension, and the matrix product
  raises when the last dimension of \<open>x\<close> is not \<open>in_features\<close>.
  \<^verbatim>\<open>nn.Linear\<close> never allocates a bias of another length than \<open>out_features\<close>;
  in a layer tampered with to hold one, a bias of length 1 is broadcast to every output
  and a bias of any other length makes the addition raise.
\<close>

record Linear =
  weight :: tensor
  bias :: "real list"

definition in_features :: "Linear \<Rightarrow> nat" where
  "in_features l = ncols (weight l)"

definition out_features :: "Linear \<Rightarrow> nat" where
  "out_features l = length (rws (weight l))"

definition dot :: "real list \<Rightarrow> real list \<Rightarrow> real" where
  "dot x w = sum_list (map2 (*) x w)"

definition bias_entries :: "Linear \<Rightarrow> real list" where
  "bias_entries l =
     (if length (bias l) = out_features l then bias l
      else replicate (out_features l) (hd (bias l)))"

definition linear_row :: "Linear \<Rightarrow> real list \<Rightarrow> real list" where
  "linear_row l x = map2 (\<lambda>w b. dot x w + b) (rws (weight l)) (bias_entries l)"

definition Linear_forward :: "Linear \<Rightarrow> tensor \<Rightarrow> error + tensor" where
  "Linear_forward l x =
     (if ncols x \<noteq> in_features l \<or>
         (length (bias l) \<noteq> out_features l \<and> length (bias l) \<noteq> 1)
      then Inl ShapeError
      else Inr \<lparr>ncols = out_features l, rws = map (linear_row l) (rws x)\<rparr>)"

text \<open>\<^verbatim>\<open>nn.ReLU()\<close> and \<^verbatim>\<open>torch.sigmoid\<close> act on every entry and keep the shape.\<close>

definition relu :: "real \<Rightarrow> real" where
  "relu x = max 0 x"

definition sigmoid :: "real \<Rightarrow> real" where
  "sigmoid x = 1 / (1 + exp (- x))"

definition ReLU_forward :: "tensor \<Rightarrow> tensor" where
  "ReLU_forward x = \<lparr>ncols = ncols x, rws = map (map relu) (rws x)\<rparr>"

definition torch_sigmoid :: "tensor \<Rightarrow> tensor" where
  "torch_sigmoid x = \<lparr>ncols = ncols x, rws = map (map sigmoid) (rws x)\<rparr>"

text \<open>
  \<^verbatim>\<open>nn.Sequential(m1, ..., mk)\<close> feeds the output of each module to the next one;
  an exception of one module ends the call.
\<close>

datatype module = LinearM Linear | ReLUM

fun module_forward :: "module \<Rightarrow> tensor \<Rightarrow> error + tensor" where
  "module_forward (LinearM l) x = Linear_forward l x"
| "module_forward ReLUM x = Inr (ReLU_forward x)"

fun Sequential_forward :: "module list \<Rightarrow> tensor \<Rightarrow> error + tensor" where
  "Sequential_forward [] x = Inr x"
| "Sequential_forward (m # ms) x =
     (case module_forward m x of
        Inl e \<Rightarrow> Inl e
      | Inr y \<Rightarrow> Sequential_forward ms y)"

section \<open>DualHeadActorCritic\<close>

record DualHeadActorCritic =
  backbone :: "module list"
  gamma_head :: Linear
  value_head :: Linear

text \<open>
  \<^verbatim>\<open>__init__(obs_dim, hidden)\<close> allocates
  \<^verbatim>\<open>Sequential(Linear(obs_dim, hidden), ReLU(), Linear(hidden, hidden), ReLU())\<close>
  and the two heads \<^verbatim>\<open>Linear(hidden, 1)\<close>. The values it fills the parameters with
  are drawn at random by the framework and changed later by an optimiser, so a network
  is described by the shapes \<^verbatim>\<open>__init__\<close> gives it, for any parameter values.
\<close>

definition Linear_shape :: "nat \<Rightarrow> nat \<Rightarrow> Linear \<Rightarrow> bool" where
  "Linear_shape i out l =
     (in_features l = i \<and> out_features l = out \<and> wf_tensor (weight l) \<and>
      length (bias l) = out)"

fun backbone_shape :: "nat \<Rightarrow> nat \<Rightarrow> module list \<Rightarrow> bool" where
  "backbone_shape obs_dim hidden [LinearM l1, ReLUM, LinearM l2, ReLUM] =
     (Linear_shape obs_dim hidden l1 \<and> Linear_shape hidden hidden l2)"
| "backbone_shape obs_dim hidden ms = False"

definition constructed :: "nat \<Rightarrow> nat \<Rightarrow> DualHeadActorCritic \<Rightarrow> bool" where
  "constructed obs_dim hidden self =
     (backbone_shape obs_dim hidden (backbone self) \<and>
      Linear_shape hidden 1 (gamma_head self) \<and>
      Linear_shape hidden 1 (value_head self))"

text \<open>
  \<^verbatim>\<open>forward(self, obs)\<close>. The call returns its result, or the error that ended it,
  together with the module as the call leaves it.
\<close>

definition forward ::
  "DualHeadActorCritic \<Rightarrow> tensor \<Rightarrow> (error + tensor \<times> tensor) \<times> DualHeadActorCritic" where
  "forward self obs =
     (case Sequential_forward (backbone self) obs of
        Inl e \<Rightarrow> (Inl e, self)
      | Inr z \<Rightarrow>
          (case Linear_forward (gamma_head self) z of
             Inl e \<Rightarrow> (Inl e, self)
           | Inr g \<Rightarrow>
               (let gamma = torch_sigmoid g in
                case Linear_forward (value_head self) z of
                  Inl e \<Rightarrow> (Inl e, self)
                | Inr val \<Rightarrow> (Inr (gamma, val), self))))"


section \<open>Row-wise reading of the layers\<close>

text \<open>What each layer does to one row of its input; used to state the results.\<close>

fun module_row :: "module \<Rightarrow> real list \<Rightarrow> real list" where
  "module_row (LinearM l) x = linear_row l x"
| "module_row ReLUM x = map relu x"

definition Sequential_row :: "module list \<Rightarrow> real list \<Rightarrow> real list" where
  "Sequential_row ms x = fold module_row ms x"

definition gamma_row :: "DualHeadActorCritic \<Rightarrow> real list \<Rightarrow> real list" where
  "gamma_row self x = map sigmoid (linear_row (gamma_head self) (Sequential_row (backbone self) x))"

definition value_row :: "DualHeadActorCritic \<Rightarrow> real list \<Rightarrow> real list" where
  "value_row self x = linear_row (value_head self) (Sequential_row (backbone self) x)"

section \<open>The forward pass as the specification words it\<close>

text \<open>
  A linear layer in index notation: output \<open>j\<close> is \<open>\<Sum>k. W\<^sub>j\<^sub>k x\<^sub>k + b\<^sub>j\<close>.
\<close>

definition linear_layer :: "Linear \<Rightarrow> real list \<Rightarrow> real list" where
  "linear_layer l x =
     map (\<lambda>j. (\<Sum>k\<leftarrow>[0..<length x]. rws (weight l) ! j ! k * x ! k) + bias l ! j)
       [0..<out_features l]"

text \<open>
  Backbone layer 1, rectified-linear activation, backbone layer 2, rectified-linear
  activation give the shared hidden representation; \<open>\<gamma>\<close> is the elementwise sigmoid
  of the gamma-head layer on it, \<open>V\<close> the value-head layer on it, each of shape \<open>(B, 1)\<close>.
\<close>

definition forward_reference ::
  "Linear \<Rightarrow> Linear \<Rightarrow> Linear \<Rightarrow> Linear \<Rightarrow> tensor \<Rightarrow> tensor \<times> tensor" where
  "forward_reference l1 l2 g v obs =
     (let z = map (\<lambda>x. map relu (linear_layer l2 (map relu (linear_layer l1 x)))) (rws obs)
      in (\<lparr>ncols = 1, rws = map (\<lambda>h. map sigmoid (linear_layer g h)) z\<rparr>,
          \<lparr>ncols = 1, rws = map (linear_layer v) z\<rparr>))"

section \<open>Binary32 arithmetic\<close>

text \<open>
  The tensors of the module hold IEEE 754 binary32 numbers (\<^verbatim>\<open>torch.float32\<close>, the
  default type): a finite value, an infinity or NaN. The two zeros are not told apart;
  they compare equal. An operation on finite values returns the exact result rounded to
  the nearest binary32 value, ties to the even significand, and an infinity when that
  value is out of range. The spacing of the values around \<open>x\<close> is \<open>2\<close> to the power
  \<open>\<lfloor>log\<^sub>2 \<bar>x\<bar>\<rfloor> - 23\<close>, and \<open>2\<close> to the power \<open>- 149\<close> below the normal range.
\<close>

datatype fp = Finite real | PInf | NInf | NaN

definition round_ties_even :: "real \<Rightarrow> int" where
  "round_ties_even z =
     (let f = \<lfloor>z\<rfloor>; d = z - of_int f
      in if d < 1 / 2 then f else if 1 / 2 < d then f + 1 else if even f then f else f + 1)"

definition round32 :: "real \<Rightarrow> fp" where
  "round32 x =
     (if x = 0 then Finite 0
      else
        let e = max (- 126) \<lfloor>log 2 \<bar>x\<bar>\<rfloor>;
            q = 2 powi (e - 23);
            y = of_int (round_ties_even (x / q)) * q
        in if 2 ^ 128 \<le> \<bar>y\<bar> then (if 0 < x then PInf else NInf) else Finite y)"


text \<open>
  The operations on the special values follow IEEE 754; the exponential is taken to be
  correctly rounded.
\<close>

fun fp_neg :: "fp \<Rightarrow> fp" where
  "fp_neg (Finite a) = Finite (- a)"
| "fp_neg PInf = NInf"
| "fp_neg NInf = PInf"
| "fp_neg NaN = NaN"

fun fp_add :: "fp \<Rightarrow> fp \<Rightarrow> fp" where
  "fp_add (Finite a) (Finite b) = round32 (a + b)"
| "fp_add NaN y = NaN"
| "fp_add x NaN = NaN"
| "fp_add PInf NInf = NaN"
| "fp_add NInf PInf = NaN"
| "fp_add PInf y = PInf"
| "fp_add x PInf = PInf"
| "fp_add NInf y = NInf"
| "fp_add x NInf = NInf"

fun fp_mul :: "fp \<Rightarrow> fp \<Rightarrow> fp" where
  "fp_mul (Finite a) (Finite b) = round32 (a * b)"
| "fp_mul NaN y = NaN"
| "fp_mul x NaN = NaN"
| "fp_mul (Finite a) y = (if a = 0 then NaN else if 0 < a then y else fp_neg y)"
| "fp_mul x (Finite b) = (if b = 0 then NaN else if 0 < b then x else fp_neg x)"
| "fp_mul PInf y = y"
| "fp_mul NInf y = fp_neg y"

fun fp_exp :: "fp \<Rightarrow> fp" where
  "fp_exp (Finite a) = round32 (exp a)"
| "fp_exp PInf = PInf"
| "fp_exp NInf = Finite 0"
| "fp_exp NaN = NaN"

fun fp_recip :: "fp \<Rightarrow> fp" where
  "fp_recip (Finite a) = (if a = 0 then PInf else round32 (1 / a))"
| "fp_recip PInf = Finite 0"
| "fp_recip NInf = Finite 0"
| "fp_recip NaN = NaN"

text \<open>
  \<^verbatim>\<open>torch.relu\<close> keeps NaN; \<^verbatim>\<open>torch.sigmoid\<close> evaluates \<open>1 / (1 + exp (- x))\<close> in
  binary32.
\<close>

fun fp_relu :: "fp \<Rightarrow> fp" where
  "fp_relu (Finite a) = Finite (max 0 a)"
| "fp_relu PInf = PInf"
| "fp_relu NInf = Finite 0"
| "fp_relu NaN = NaN"

definition fp_sigmoid :: "fp \<Rightarrow> fp" where
  "fp_sigmoid x = fp_recip (fp_add (Finite 1) (fp_exp (fp_neg x)))"

fun is_finite :: "fp \<Rightarrow> bool" where
  "is_finite (Finite a) = True"
| "is_finite x = False"

text \<open>The finite values a binary32 tensor can hold: those that rounding leaves alone.\<close>

fun finite32 :: "fp \<Rightarrow> bool" where
  "finite32 (Finite a) = (round32 a = Finite a)"
| "finite32 x = False"

section \<open>The forward pass in binary32\<close>

text \<open>
  The matrix product inside \<^verbatim>\<open>nn.Linear\<close> is computed by a kernel that the framework
  selects from the shapes of the operands; kernels differ in the order in which they
  accumulate the products, and in whether they fuse operations. A kernel is therefore a
  parameter of the model: for a batch of \<open>B\<close> rows it gives the output entry computed from
  an input row, a weight row and a bias entry.
\<close>

type_synonym kernel = "nat \<Rightarrow> fp list \<Rightarrow> fp list \<Rightarrow> fp \<Rightarrow> fp"

text \<open>The kernel that accumulates the products from the first to the last, then adds the bias.\<close>

definition sequential :: kernel where
  "sequential B x w b = fp_add (foldl fp_add (Finite 0) (map2 fp_mul x w)) b"


text \<open>
  The tensors, the layers and the module are those of the first model, with binary32
  entries; a linear layer computes each output entry with the kernel, for the batch size
  of its input.
\<close>

record tensor32 =
  ncols32 :: nat
  rws32 :: "fp list list"

definition shape32 :: "tensor32 \<Rightarrow> nat \<times> nat" where
  "shape32 t = (length (rws32 t), ncols32 t)"

definition wf_tensor32 :: "tensor32 \<Rightarrow> bool" where
  "wf_tensor32 t = list_all (\<lambda>r. length r = ncols32 t) (rws32 t)"

record Linear32 =
  weight32 :: tensor32
  bias32 :: "fp list"

definition in_features32 :: "Linear32 \<Rightarrow> nat" where
  "in_features32 l = ncols32 (weight32 l)"

definition out_features32 :: "Linear32 \<Rightarrow> nat" where
  "out_features32 l = length (rws32 (weight32 l))"

definition bias_entries32 :: "Linear32 \<Rightarrow> fp list" where
  "bias_entries32 l =
     (if length (bias32 l) = out_features32 l then bias32 l
      else replicate (out_features32 l) (hd (bias32 l)))"

definition linear_row32 :: "kernel \<Rightarrow> nat \<Rightarrow> Linear32 \<Rightarrow> fp list \<Rightarrow> fp list" where
  "linear_row32 k B l x = map2 (k B x) (rws32 (weight32 l)) (bias_entries32 l)"

definition Linear_forward32 :: "kernel \<Rightarrow> Linear32 \<Rightarrow> tensor32 \<Rightarrow> error + tensor32" where
  "Linear_forward32 k l x =
     (if ncols32 x \<noteq> in_features32 l \<or>
         (length (bias32 l) \<noteq> out_features32 l \<and> length (bias32 l) \<noteq> 1)
      then Inl ShapeError
      else Inr \<lparr>ncols32 = out_features32 l,
                rws32 = map (linear_row32 k (length (rws32 x)) l) (rws32 x)\<rparr>)"

definition ReLU_forward32 :: "tensor32 \<Rightarrow> tensor32" where
  "ReLU_forward32 x = \<lparr>ncols32 = ncols32 x, rws32 = map (map fp_relu) (rws32 x)\<rparr>"

definition torch_sigmoid32 :: "tensor32 \<Rightarrow> tensor32" where
  "torch_sigmoid32 x = \<lparr>ncols32 = ncols32 x, rws32 = map (map fp_sigmoid) (rws32 x)\<rparr>"

datatype module32 = LinearM32 Linear32 | ReLUM32

fun module_forward32 :: "kernel \<Rightarrow> module32 \<Rightarrow> tensor32 \<Rightarrow> error + tensor32" where
  "module_forward32 k (LinearM32 l) x = Linear_forward32 k l x"
| "module_forward32 k ReLUM32 x = Inr (ReLU_forward32 x)"

fun Sequential_forward32 :: "kernel \<Rightarrow> module32 list \<Rightarrow> tensor32 \<Rightarrow> error + tensor32" where
  "Sequential_forward32 k [] x = Inr x"
| "Sequential_forward32 k (m # ms) x =
     (case module_forward32 k m x of
        Inl e \<Rightarrow> Inl e
      | Inr y \<Rightarrow> Sequential_forward32 k ms y)"

record DualHeadActorCritic32 =
  backbone32 :: "module32 list"
  gamma_head32 :: Linear32
  value_head32 :: Linear32

definition Linear_shape32 :: "nat \<Rightarrow> nat \<Rightarrow> Linear32 \<Rightarrow> bool" where
  "Linear_shape32 i out l =
     (in_features32 l = i \<and> out_features32 l = out \<and> wf_tensor32 (weight32 l) \<and>
      length (bias32 l) = out)"

fun backbone_shape32 :: "nat \<Rightarrow> nat \<Rightarrow> module32 list \<Rightarrow> bool" where
  "backbone_shape32 obs_dim hidden [LinearM32 l1, ReLUM32, LinearM32 l2, ReLUM32] =
     (Linear_shape32 obs_dim hidden l1 \<and> Linear_shape32 hidden hidden l2)"
| "backbone_shape32 obs_dim hidden ms = False"

definition constructed32 :: "nat \<Rightarrow> nat \<Rightarrow> DualHeadActorCritic32 \<Rightarrow> bool" where
  "constructed32 obs_dim hidden self =
     (backbone_shape32 obs_dim hidden (backbone32 self) \<and>
      Linear_shape32 hidden 1 (gamma_head32 self) \<and>
      Linear_shape32 hidden 1 (value_head32 self))"

definition forward32 ::
  "kernel \<Rightarrow> DualHeadActorCritic32 \<Rightarrow> tensor32 \<Rightarrow>
   (error + tensor32 \<times> tensor32) \<times> DualHeadActorCritic32" where
  "forward32 k self obs =
     (case Sequential_forward32 k (backbone32 self) obs of
        Inl e \<Rightarrow> (Inl e, self)
      | Inr z \<Rightarrow>
          (case Linear_forward32 k (gamma_head32 self) z of
             Inl e \<Rightarrow> (Inl e, self)
           | Inr g \<Rightarrow>
               (let gamma = torch_sigmoid32 g in
                case Linear_forward32 k (value_head32 self) z of
                  Inl e \<Rightarrow> (Inl e, self)
                | Inr val \<Rightarrow> (Inr (gamma, val), self))))"

text \<open>What the layers do to one row of a batch of \<open>B\<close> rows.\<close>

fun module_row32 :: "kernel \<Rightarrow> nat \<Rightarrow> module32 \<Rightarrow> fp list \<Rightarrow> fp list" where
  "module_row32 k B (LinearM32 l) x = linear_row32 k B l x"
| "module_row32 k B ReLUM32 x = map fp_relu x"

definition Sequential_row32 :: "kernel \<Rightarrow> nat \<Rightarrow> module32 list \<Rightarrow> fp list \<Rightarrow> fp list" where
  "Sequential_row32 k B ms x = fold (module_row32 k B) ms x"

definition gamma_row32 ::
  "kernel \<Rightarrow> nat \<Rightarrow> DualHeadActorCritic32 \<Rightarrow> fp list \<Rightarrow> fp list" where
  "gamma_row32 k B self x =
     map fp_sigmoid (linear_row32 k B (gamma_head32 self) (Sequential_row32 k B (backbone32 self) x))"

definition value_row32 ::
  "kernel \<Rightarrow> nat \<Rightarrow> DualHeadActorCritic32 \<Rightarrow> fp list \<Rightarrow> fp list" where
  "value_row32 k B self x =
     linear_row32 k B (value_head32 self) (Sequential_row32 k B (backbone32 self) x)"


definition zero_weight32 :: "Linear32 \<Rightarrow> bool" where
  "zero_weight32 l = list_all (list_all (\<lambda>w. w = Finite 0)) (rws32 (weight32 l))"

text \<open>
  A kernel is exact on zero weights when, for a weight row of zeros, a finite input row and
  a finite bias entry, it returns the bias entry: every product is an exact zero, and a
  finite binary32 value added to zero is itself.
\<close>

definition zero_exact :: "kernel \<Rightarrow> bool" where
  "zero_exact k =
     (\<forall>B x w b. list_all is_finite x \<and> list_all (\<lambda>c. c = Finite 0) w \<and> finite32 b \<longrightarrow>
        k B x w b = b)"

section \<open>A concrete network and batch\<close>

text \<open>
  A network as \<^verbatim>\<open>DualHeadActorCritic(obs_dim=2, hidden=2)\<close> builds it, with chosen
  parameter values, variants of it with other head parameters, and a batch of two
  observations.
\<close>

definition example_l1 :: Linear where
  "example_l1 = \<lparr>weight = \<lparr>ncols = 2, rws = [[1, 0], [0, 1]]\<rparr>, bias = [0, 1]\<rparr>"

definition example_l2 :: Linear where
  "example_l2 = \<lparr>weight = \<lparr>ncols = 2, rws = [[1, -1], [2, 1]]\<rparr>, bias = [0, 0]\<rparr>"

definition example_net :: DualHeadActorCritic where
  "example_net =
     \<lparr>backbone = [LinearM example_l1, ReLUM, LinearM example_l2, ReLUM],
      gamma_head = \<lparr>weight = \<lparr>ncols = 2, rws = [[1, 1]]\<rparr>, bias = [0]\<rparr>,
      value_head = \<lparr>weight = \<lparr>ncols = 2, rws = [[1, -1]]\<rparr>, bias = [1 / 2]\<rparr>\<rparr>"

definition other_value_net :: DualHeadActorCritic where
  "other_value_net =
     example_net\<lparr>value_head := \<lparr>weight = \<lparr>ncols = 2, rws = [[3, 5]]\<rparr>, bias = [7]\<rparr>\<rparr>"

definition other_gamma_net :: DualHeadActorCritic where
  "other_gamma_net =
     example_net\<lparr>gamma_head := \<lparr>weight = \<lparr>ncols = 2, rws = [[2, -3]]\<rparr>, bias = [4]\<rparr>\<rparr>"

definition example_obs :: tensor where
  "example_obs = \<lparr>ncols = 2, rws = [[1, 2], [3, -4]]\<rparr>"

definition empty_obs :: tensor where
  "empty_obs = \<lparr>ncols = 2, rws = []\<rparr>"

definition wide_obs :: tensor where
  "wide_obs = \<lparr>ncols = 3, rws = [[1, 2, 3]]\<rparr>"

section \<open>Concrete binary32 networks and batches\<close>

text \<open>
  The network \<^verbatim>\<open>DualHeadActorCritic(obs_dim=2, hidden=2)\<close> with parameters that binary32
  holds exactly, and an observation that drives the gamma-head to 18.
\<close>

definition example_net32 :: DualHeadActorCritic32 where
  "example_net32 =
     \<lparr>backbone32 =
        [LinearM32 \<lparr>weight32 = \<lparr>ncols32 = 2, rws32 = [[Finite 1, Finite 0], [Finite 0, Finite 1]]\<rparr>,
                    bias32 = [Finite 0, Finite 1]\<rparr>,
         ReLUM32,
         LinearM32 \<lparr>weight32 = \<lparr>ncols32 = 2, rws32 = [[Finite 1, Finite (- 1)], [Finite 2, Finite 1]]\<rparr>,
                    bias32 = [Finite 0, Finite 0]\<rparr>,
         ReLUM32],
      gamma_head32 = \<lparr>weight32 = \<lparr>ncols32 = 2, rws32 = [[Finite 1, Finite 1]]\<rparr>, bias32 = [Finite 0]\<rparr>,
      value_head32 = \<lparr>weight32 = \<lparr>ncols32 = 2, rws32 = [[Finite 1, Finite (- 1)]]\<rparr>,
                      bias32 = [Finite (1 / 2)]\<rparr>\<rparr>"

definition saturating_obs32 :: tensor32 where
  "saturating_obs32 = \<lparr>ncols32 = 2, rws32 = [[Finite 6, Finite 0]]\<rparr>"

definition example_obs32 :: tensor32 where
  "example_obs32 = \<lparr>ncols32 = 2, rws32 = [[Finite 1, Finite 2], [Finite 3, Finite (- 4)]]\<rparr>"


text \<open>The same architecture with every weight zero, and a batch with an infinite entry.\<close>

definition zero_l1_32 :: Linear32 where
  "zero_l1_32 =
     \<lparr>weight32 = \<lparr>ncols32 = 2, rws32 = [[Finite 0, Finite 0], [Finite 0, Finite 0]]\<rparr>,
      bias32 = [Finite 1, Finite (- 1)]\<rparr>"

definition zero_l2_32 :: Linear32 where
  "zero_l2_32 =
     \<lparr>weight32 = \<lparr>ncols32 = 2, rws32 = [[Finite 0, Finite 0], [Finite 0, Finite 0]]\<rparr>,
      bias32 = [Finite 2, Finite 3]\<rparr>"

definition zero_net32 :: DualHeadActorCritic32 where
  "zero_net32 =
     \<lparr>backbone32 = [LinearM32 zero_l1_32, ReLUM32, LinearM32 zero_l2_32, ReLUM32],
      gamma_head32 = \<lparr>weight32 = \<lparr>ncols32 = 2, rws32 = [[Finite 0, Finite 0]]\<rparr>, bias32 = [Finite 1]\<rparr>,
      value_head32 = \<lparr>weight32 = \<lparr>ncols32 = 2, rws32 = [[Finite 0, Finite 0]]\<rparr>,
                      bias32 = [Finite (1 / 2)]\<rparr>\<rparr>"

definition inf_obs32 :: tensor32 where
  "inf_obs32 = \<lparr>ncols32 = 2, rws32 = [[PInf, Finite 1]]\<rparr>"



section \<open>Properties of the layers\<close>

lemma Linear_forward_ok:
  "Linear_shape i out l \<Longrightarrow> ncols x = i \<Longrightarrow>
   Linear_forward l x = Inr \<lparr>ncols = out, rws = map (linear_row l) (rws x)\<rparr>"
  by (simp add: Linear_forward_def Linear_shape_def)

lemma Linear_forward_mismatch:
  "ncols x \<noteq> in_features l \<Longrightarrow> Linear_forward l x = Inl ShapeError"
  by (simp add: Linear_forward_def)

lemma module_forward_rows:
  "module_forward m x = Inr y \<Longrightarrow> rws y = map (module_row m) (rws x)"
  by (cases m) (auto simp: Linear_forward_def ReLU_forward_def split: if_splits)

lemma Sequential_forward_rows:
  "Sequential_forward ms x = Inr y \<Longrightarrow> rws y = map (Sequential_row ms) (rws x)"
proof (induction ms arbitrary: x)
  case Nil
  then show ?case by (simp add: Sequential_row_def)
next
  case (Cons m ms)
  from Cons.prems obtain u where u: "module_forward m x = Inr u"
    and rest: "Sequential_forward ms u = Inr y"
    by (auto split: sum.splits)
  have "rws y = map (Sequential_row ms) (rws u)"
    using Cons.IH [OF rest] .
  also have "rws u = map (module_row m) (rws x)"
    using module_forward_rows [OF u] .
  finally show ?case
    by (simp add: Sequential_row_def comp_def)
qed

lemma backbone_ok:
  assumes "Linear_shape obs_dim hidden l1" and "Linear_shape hidden hidden l2"
    and "ncols obs = obs_dim"
  shows "\<exists>z. Sequential_forward [LinearM l1, ReLUM, LinearM l2, ReLUM] obs = Inr z \<and>
             ncols z = hidden"
  using assms by (simp add: Linear_forward_ok ReLU_forward_def)

lemma constructed_backbone:
  assumes "constructed obs_dim hidden self"
  obtains l1 l2 where "backbone self = [LinearM l1, ReLUM, LinearM l2, ReLUM]"
    and "Linear_shape obs_dim hidden l1" and "Linear_shape hidden hidden l2"
proof -
  from assms have "backbone_shape obs_dim hidden (backbone self)"
    by (simp add: constructed_def)
  then show thesis
    by (rule backbone_shape.elims) (auto intro: that)
qed

lemma forward_constructed:
  assumes c: "constructed obs_dim hidden self" and n: "ncols obs = obs_dim"
  shows "forward self obs =
           (Inr (\<lparr>ncols = 1, rws = map (gamma_row self) (rws obs)\<rparr>,
                 \<lparr>ncols = 1, rws = map (value_row self) (rws obs)\<rparr>), self)"
proof -
  from c obtain l1 l2 where b: "backbone self = [LinearM l1, ReLUM, LinearM l2, ReLUM]"
    and s1: "Linear_shape obs_dim hidden l1" and s2: "Linear_shape hidden hidden l2"
    by (rule constructed_backbone)
  from backbone_ok [OF s1 s2 n] obtain z
    where z: "Sequential_forward (backbone self) obs = Inr z" and nz: "ncols z = hidden"
    unfolding b by blast
  have rz: "rws z = map (Sequential_row (backbone self)) (rws obs)"
    using Sequential_forward_rows [OF z] .
  have g: "Linear_shape hidden 1 (gamma_head self)" and v: "Linear_shape hidden 1 (value_head self)"
    using c by (simp_all add: constructed_def)
  show ?thesis
    by (simp add: forward_def z Linear_forward_ok [OF g nz] Linear_forward_ok [OF v nz]
        torch_sigmoid_def rz gamma_row_def value_row_def comp_def)
qed

lemma length_linear_row:
  "Linear_shape i out l \<Longrightarrow> length (linear_row l x) = out"
  by (simp add: linear_row_def bias_entries_def Linear_shape_def out_features_def)

lemma dot_index:
  "length w = length x \<Longrightarrow> dot x w = (\<Sum>k\<leftarrow>[0..<length x]. w ! k * x ! k)"
proof -
  assume len: "length w = length x"
  have "map2 (*) x w = map (\<lambda>k. w ! k * x ! k) [0..<length x]"
    by (rule nth_equalityI) (simp_all add: len mult.commute)
  then show ?thesis
    by (simp add: dot_def)
qed

lemma linear_row_is_linear_layer:
  assumes s: "Linear_shape i out l" and x: "length x = i"
  shows "linear_row l x = linear_layer l x"
proof (rule nth_equalityI)
  show "length (linear_row l x) = length (linear_layer l x)"
    using s by (simp add: length_linear_row linear_layer_def Linear_shape_def)
next
  fix j assume "j < length (linear_row l x)"
  then have j: "j < out"
    using s by (simp add: length_linear_row)
  have rows: "length (rws (weight l)) = out" and b: "length (bias l) = out"
    using s by (simp_all add: Linear_shape_def out_features_def)
  have "rws (weight l) ! j \<in> set (rws (weight l))"
    using j rows by simp
  then have "length (rws (weight l) ! j) = length x"
    using s x by (simp add: Linear_shape_def wf_tensor_def in_features_def list_all_iff)
  then have "dot x (rws (weight l) ! j) = (\<Sum>k\<leftarrow>[0..<length x]. rws (weight l) ! j ! k * x ! k)"
    by (rule dot_index)
  then show "linear_row l x ! j = linear_layer l x ! j"
    using j rows b
    by (simp add: linear_row_def bias_entries_def linear_layer_def out_features_def)
qed

text \<open>
  On exact reals the sigmoid lies strictly between 0 and 1. The lemma says nothing about
  the values a binary32 tensor holds: there the sigmoid is rounded and reaches 1.
\<close>

lemma sigmoid_bounds: "0 < sigmoid x \<and> sigmoid x < 1"
proof -
  have "0 < exp (- x)" by simp
  then show ?thesis
    by (simp add: sigmoid_def add_pos_pos)
qed

lemma forward_mismatch:
  assumes c: "constructed obs_dim hidden self" and n: "ncols obs \<noteq> obs_dim"
  shows "forward self obs = (Inl ShapeError, self)"
proof -
  from c obtain l1 l2 where b: "backbone self = [LinearM l1, ReLUM, LinearM l2, ReLUM]"
    and s1: "Linear_shape obs_dim hidden l1" and s2: "Linear_shape hidden hidden l2"
    by (rule constructed_backbone)
  from s1 n have "ncols obs \<noteq> in_features l1"
    by (simp add: Linear_shape_def)
  then have "Linear_forward l1 obs = Inl ShapeError"
    by (rule Linear_forward_mismatch)
  then show ?thesis
    by (simp add: forward_def b)
qed

lemma example_net_constructed: "constructed 2 2 example_net"
  by (simp add: constructed_def example_net_def example_l1_def example_l2_def
      Linear_shape_def in_features_def out_features_def wf_tensor_def)

section \<open>Properties of rounding\<close>

lemma round_ties_even_of_int: "round_ties_even (of_int n) = n"
  by (simp add: round_ties_even_def)

lemma round_ties_even_le: "z \<le> of_int n \<Longrightarrow> round_ties_even z \<le> n"
proof -
  assume le: "z \<le> of_int n"
  show ?thesis
  proof (cases "z = of_int n")
    case True
    then show ?thesis by (simp add: round_ties_even_of_int)
  next
    case False
    with le have "z < of_int n" by simp
    then have "\<lfloor>z\<rfloor> < n" by (simp add: floor_less_iff)
    then have "\<lfloor>z\<rfloor> + 1 \<le> n" by simp
    moreover have "round_ties_even z \<le> \<lfloor>z\<rfloor> + 1"
      by (simp add: round_ties_even_def Let_def)
    ultimately show ?thesis by simp
  qed
qed

lemma round_ties_even_ge: "of_int n \<le> z \<Longrightarrow> n \<le> round_ties_even z"
proof -
  assume "of_int n \<le> z"
  then have "n \<le> \<lfloor>z\<rfloor>" by (simp add: le_floor_iff)
  moreover have "\<lfloor>z\<rfloor> \<le> round_ties_even z"
    by (simp add: round_ties_even_def Let_def)
  ultimately show ?thesis by simp
qed

lemma pow2_less_iff: "(2::real) powi a < 2 powi b \<longleftrightarrow> a < b"
proof
  assume l: "(2::real) powi a < 2 powi b"
  show "a < b"
  proof (rule ccontr)
    assume "\<not> a < b"
    then have "b \<le> a" by simp
    then have "(2::real) powi b \<le> 2 powi a"
      by (rule power_int_increasing) simp
    with l show False by simp
  qed
next
  assume "a < b"
  then show "(2::real) powi a < 2 powi b"
    by (rule power_int_strict_increasing) simp
qed

lemma pow2_powr: "(2::real) powr real_of_int n = 2 powi n"
  by (rule powr_real_of_int') simp_all

lemma floor_log2_iff:
  assumes "x \<noteq> 0"
  shows "\<lfloor>log 2 \<bar>x\<bar>\<rfloor> = n \<longleftrightarrow> 2 powi n \<le> \<bar>x\<bar> \<and> \<bar>x\<bar> < 2 powi (n + 1)"
proof -
  have pos: "0 < \<bar>x\<bar>" using assms by simp
  have "real_of_int n + 1 = real_of_int (n + 1)" by simp
  then have "(2::real) powr (real_of_int n + 1) = 2 powi (n + 1)"
    using pow2_powr [of "n + 1"] by simp
  then show ?thesis
    using floor_log_eq_powr_iff [OF pos, of 2 n] by (simp add: pow2_powr)
qed

lemma floor_log2_bounds:
  assumes "x \<noteq> 0"
  shows "2 powi \<lfloor>log 2 \<bar>x\<bar>\<rfloor> \<le> \<bar>x\<bar>" and "\<bar>x\<bar> < 2 powi (\<lfloor>log 2 \<bar>x\<bar>\<rfloor> + 1)"
  using floor_log2_iff [OF assms, of "\<lfloor>log 2 \<bar>x\<bar>\<rfloor>"] by simp_all

lemma round32_exact:
  assumes m: "\<bar>m\<bar> < 2 ^ 24" and k: "- 149 \<le> k" "k \<le> 104"
  shows "round32 (of_int m * 2 powi k) = Finite (of_int m * 2 powi k)"
proof (cases "m = 0")
  case True
  then show ?thesis by (simp add: round32_def)
next
  case False
  define x :: real where "x = of_int m * 2 powi k"
  have x0: "x \<noteq> 0" using False by (simp add: x_def)
  define n where "n = \<lfloor>log 2 \<bar>x\<bar>\<rfloor>"
  define e where "e = max (- 126) n"
  have absx: "\<bar>x\<bar> = of_int \<bar>m\<bar> * 2 powi k"
    by (simp add: x_def abs_mult)
  have "of_int \<bar>m\<bar> < (2::real) ^ 24"
    using m by (metis of_int_less_iff of_int_numeral of_int_power)
  then have "\<bar>x\<bar> < 2 ^ 24 * 2 powi k"
    unfolding absx by (simp add: mult_strict_right_mono)
  also have "\<dots> = 2 powi (24 + k)"
    by (simp add: power_int_add)
  finally have up: "\<bar>x\<bar> < 2 powi (24 + k)" .
  have "2 powi n \<le> \<bar>x\<bar>"
    unfolding n_def using x0 by (rule floor_log2_bounds)
  with up have "(2::real) powi n < 2 powi (24 + k)" by simp
  then have "n < 24 + k" by (simp only: pow2_less_iff)
  then have ek: "e - 23 \<le> k" using k by (simp add: e_def)
  define d where "d = nat (k - (e - 23))"
  have kd: "k = (e - 23) + int d" using ek by (simp add: d_def)
  have q: "(2::real) powi k = 2 powi (e - 23) * 2 ^ d"
    by (subst kd) (simp add: power_int_add)
  have div: "x / 2 powi (e - 23) = of_int (m * 2 ^ d)"
    by (simp add: x_def q)
  have y: "of_int (round_ties_even (x / 2 powi (e - 23))) * 2 powi (e - 23) = x"
    unfolding div round_ties_even_of_int by (simp add: x_def q)
  have "(2::real) powi (24 + k) \<le> 2 powi 128"
    using k by (intro power_int_increasing) simp_all
  with up have "\<bar>x\<bar> < 2 ^ 128" by simp
  then show ?thesis
    using x0 y unfolding x_def [symmetric] round32_def
    by (simp add: Let_def n_def [symmetric] e_def [symmetric])
qed


lemma round32_le_pow2:
  assumes x: "0 < x" "x \<le> 2 powi m" and m: "- 149 \<le> m" "m \<le> 127"
  shows "\<exists>t. round32 x = Finite t \<and> 0 \<le> t \<and> t \<le> 2 powi m"
proof -
  define n where "n = \<lfloor>log 2 \<bar>x\<bar>\<rfloor>"
  define e where "e = max (- 126) n"
  define q :: real where "q = 2 powi (e - 23)"
  define r where "r = round_ties_even (x / q)"
  have x0: "x \<noteq> 0" using x by simp
  have q0: "0 < q" by (simp add: q_def)
  have "2 powi n \<le> \<bar>x\<bar>"
    unfolding n_def using x0 by (rule floor_log2_bounds)
  with x have "(2::real) powi n \<le> 2 powi m" by simp
  then have "\<not> (2::real) powi m < 2 powi n" by simp
  then have "n \<le> m" by (simp only: pow2_less_iff not_less)
  then have em: "e - 23 \<le> m" using m by (simp add: e_def)
  define d where "d = nat (m - (e - 23))"
  have md: "m = (e - 23) + int d" using em by (simp add: d_def)
  have pm: "(2::real) powi m = q * 2 ^ d"
    unfolding q_def by (subst md) (simp add: power_int_add)
  have "x / q \<le> 2 powi m / q"
    using x q0 by (simp add: divide_right_mono)
  also have "2 powi m / q = of_int (2 ^ d)"
    using q0 by (simp add: pm)
  finally have "r \<le> 2 ^ d"
    unfolding r_def by (rule round_ties_even_le)
  then have "real_of_int r \<le> 2 ^ d"
    by (metis of_int_le_iff of_int_numeral of_int_power)
  then have up: "of_int r * q \<le> 2 powi m"
    using q0 by (simp add: pm mult.commute mult_left_mono)
  have "of_int 0 \<le> x / q" using x q0 by simp
  then have "0 \<le> r"
    unfolding r_def by (rule round_ties_even_ge)
  then have lo: "0 \<le> of_int r * q" using q0 by simp
  have "(2::real) powi m \<le> 2 powi 127"
    using m by (intro power_int_increasing) simp_all
  also have "\<dots> < 2 ^ 128" by simp
  finally have "\<bar>of_int r * q\<bar> < 2 ^ 128" using up lo by simp
  then have "round32 x = Finite (of_int r * q)"
    using x0 unfolding round32_def
    by (simp add: Let_def n_def [symmetric] e_def [symmetric] q_def [symmetric] r_def [symmetric])
  with up lo show ?thesis by blast
qed

lemma round32_eq:
  assumes "x \<noteq> 0" and "\<lfloor>log 2 \<bar>x\<bar>\<rfloor> = n" and "e = max (- 126) n"
    and "round_ties_even (x / 2 powi (e - 23)) = r"
    and "\<bar>of_int r * 2 powi (e - 23)\<bar> < (2::real) ^ 128"
  shows "round32 x = Finite (of_int r * 2 powi (e - 23))"
  using assms unfolding round32_def Let_def by simp

lemma round32_one_plus:
  assumes t: "0 \<le> t" "t \<le> 2 powi (- 25)"
  shows "round32 (1 + t) = Finite 1"
proof -
  have t': "t \<le> 1 / 2 ^ 25"
    using t by (simp add: power_int_minus_divide)
  have x0: "1 + t \<noteq> 0" using t by simp
  have n: "\<lfloor>log 2 \<bar>1 + t\<bar>\<rfloor> = 0"
    using t t' by (subst floor_log2_iff) simp_all
  have e: "(0::int) = max (- 126) 0" by simp
  have v: "(1 + t) / 2 powi (0 - 23) = 2 ^ 23 + t * 2 ^ 23"
    by (simp add: power_int_minus_divide algebra_simps)
  have f: "\<lfloor>2 ^ 23 + t * 2 ^ 23\<rfloor> = (2 ^ 23 :: int)"
    using t t' by (intro floor_unique) simp_all
  have "2 ^ 23 + t * 2 ^ 23 - of_int (2 ^ 23 :: int) < 1 / 2"
    using t' by simp
  then have r: "round_ties_even ((1 + t) / 2 powi (0 - 23)) = 2 ^ 23"
    unfolding v round_ties_even_def Let_def f by simp
  have b: "\<bar>of_int (2 ^ 23) * 2 powi (0 - 23)\<bar> < (2::real) ^ 128"
    by (simp add: power_int_minus_divide)
  have "round32 (1 + t) = Finite (of_int (2 ^ 23) * 2 powi (0 - 23))"
    using x0 n e r b by (rule round32_eq)
  then show ?thesis
    by (simp add: power_int_minus_divide)
qed

lemma e_lower: "(267 / 100 :: real) \<le> exp 1"
proof -
  have "(267 / 100 :: real) \<le> (1 + 1 / of_nat 32) ^ 32"
    by (simp add: power_divide)
  also have "\<dots> \<le> exp 1"
    by (rule exp_ge_one_plus_x_over_n_power_n) simp_all
  finally show ?thesis .
qed

lemma exp_18_lower: "(2::real) ^ 25 \<le> exp 18"
proof -
  have "(2::real) ^ 25 \<le> (267 / 100) ^ 18"
    by (simp add: power_divide)
  also have "\<dots> \<le> exp 1 ^ 18"
    using e_lower by (intro power_mono) simp_all
  also have "\<dots> = exp 18"
    using exp_of_nat_mult [of 18 "1::real"] by simp
  finally show ?thesis .
qed

lemma exp_minus_small:
  fixes x :: real
  assumes "18 \<le> x"
  shows "0 < exp (- x)" and "exp (- x) \<le> 2 powi (- 25)"
proof -
  show "0 < exp (- x)" by simp
  have "exp (- x) \<le> exp (- 18)" using assms by simp
  also have "\<dots> = 1 / exp 18" by (simp add: exp_minus')
  also have "\<dots> \<le> 1 / 2 ^ 25"
    using exp_18_lower by (simp add: frac_le)
  finally show "exp (- x) \<le> 2 powi (- 25)"
    by (simp add: power_int_minus_divide)
qed

lemma round32_tie: "round32 16777217 = Finite 16777216"
proof -
  have n: "\<lfloor>log 2 \<bar>16777217 :: real\<bar>\<rfloor> = 24"
    by (subst floor_log2_iff) simp_all
  have e: "(24::int) = max (- 126) 24" by simp
  have "\<lfloor>16777217 / 2 :: real\<rfloor> = 8388608"
    by (intro floor_unique) simp_all
  then have r: "round_ties_even (16777217 / 2 powi (24 - 23)) = 8388608"
    by (simp add: round_ties_even_def Let_def)
  have b: "\<bar>of_int 8388608 * 2 powi (24 - 23)\<bar> < (2::real) ^ 128"
    by simp
  have "round32 16777217 = Finite (of_int 8388608 * 2 powi (24 - 23))"
    using _ n e r b by (rule round32_eq) simp
  then show ?thesis by simp
qed

section \<open>Properties of the binary32 layers\<close>

lemma round32_0: "round32 0 = Finite 0"
  by (simp add: round32_def)

lemma round32_numeral:
  "(numeral n :: int) < 2 ^ 24 \<Longrightarrow> round32 (numeral n) = Finite (numeral n)"
  using round32_exact [of "numeral n" 0] by simp

lemma round32_neg_numeral:
  "(numeral n :: int) < 2 ^ 24 \<Longrightarrow> round32 (- numeral n) = Finite (- numeral n)"
  using round32_exact [of "- numeral n" 0] by simp

lemma round32_1: "round32 1 = Finite 1"
  using round32_exact [of 1 0] by simp

lemma round32_neg_1: "round32 (- 1) = Finite (- 1)"
  using round32_exact [of "- 1" 0] by simp

lemma round32_half: "round32 (1 / 2) = Finite (1 / 2)"
  using round32_exact [of 1 "- 1"] by (simp add: power_int_minus_divide)

lemma round32_neg_halves: "round32 (- (15 / 2)) = Finite (- (15 / 2))"
  using round32_exact [of "- 15" "- 1"] by (simp add: power_int_minus_divide)

lemma round32_pow24:
  "round32 16777216 = Finite 16777216" "round32 (- 16777216) = Finite (- 16777216)"
  using round32_exact [of 1 24] round32_exact [of "- 1" 24] by simp_all

lemmas round32_values =
  round32_0 round32_1 round32_neg_1 round32_numeral round32_neg_numeral round32_half
  round32_neg_halves round32_pow24 round32_tie

lemma fp_sigmoid_saturates:
  assumes "18 \<le> x"
  shows "fp_sigmoid (Finite x) = Finite 1"
proof -
  from exp_minus_small [OF assms] obtain t
    where t: "round32 (exp (- x)) = Finite t" "0 \<le> t" "t \<le> 2 powi (- 25)"
    using round32_le_pow2 [of "exp (- x)" "- 25"] by auto
  then show ?thesis
    by (simp add: fp_sigmoid_def round32_one_plus round32_1)
qed

lemma Linear_forward32_ok:
  "Linear_shape32 i out l \<Longrightarrow> ncols32 x = i \<Longrightarrow>
   Linear_forward32 k l x =
     Inr \<lparr>ncols32 = out, rws32 = map (linear_row32 k (length (rws32 x)) l) (rws32 x)\<rparr>"
  by (simp add: Linear_forward32_def Linear_shape32_def)

lemma Linear_forward32_mismatch:
  "ncols32 x \<noteq> in_features32 l \<Longrightarrow> Linear_forward32 k l x = Inl ShapeError"
  by (simp add: Linear_forward32_def)

lemma module_forward32_rows:
  "module_forward32 k m x = Inr y \<Longrightarrow>
   rws32 y = map (module_row32 k (length (rws32 x)) m) (rws32 x)"
  by (cases m) (auto simp: Linear_forward32_def ReLU_forward32_def split: if_splits)

lemma Sequential_forward32_rows:
  "Sequential_forward32 k ms x = Inr y \<Longrightarrow>
   rws32 y = map (Sequential_row32 k (length (rws32 x)) ms) (rws32 x)"
proof (induction ms arbitrary: x)
  case Nil
  then show ?case by (simp add: Sequential_row32_def)
next
  case (Cons m ms)
  from Cons.prems obtain u where u: "module_forward32 k m x = Inr u"
    and rest: "Sequential_forward32 k ms u = Inr y"
    by (auto split: sum.splits)
  have ru: "rws32 u = map (module_row32 k (length (rws32 x)) m) (rws32 x)"
    using module_forward32_rows [OF u] .
  then have len: "length (rws32 u) = length (rws32 x)" by simp
  have "rws32 y = map (Sequential_row32 k (length (rws32 u)) ms) (rws32 u)"
    using Cons.IH [OF rest] .
  then show ?case
    unfolding len by (simp add: ru Sequential_row32_def comp_def)
qed

lemma constructed32_backbone:
  assumes "constructed32 obs_dim hidden self"
  obtains l1 l2 where "backbone32 self = [LinearM32 l1, ReLUM32, LinearM32 l2, ReLUM32]"
    and "Linear_shape32 obs_dim hidden l1" and "Linear_shape32 hidden hidden l2"
proof -
  from assms have "backbone_shape32 obs_dim hidden (backbone32 self)"
    by (simp add: constructed32_def)
  then show thesis
    by (rule backbone_shape32.elims) (auto intro: that)
qed

lemma forward32_constructed:
  assumes c: "constructed32 obs_dim hidden self" and n: "ncols32 obs = obs_dim"
  shows "forward32 k self obs =
           (Inr (\<lparr>ncols32 = 1, rws32 = map (gamma_row32 k (length (rws32 obs)) self) (rws32 obs)\<rparr>,
                 \<lparr>ncols32 = 1, rws32 = map (value_row32 k (length (rws32 obs)) self) (rws32 obs)\<rparr>),
            self)"
proof -
  from c obtain l1 l2 where b: "backbone32 self = [LinearM32 l1, ReLUM32, LinearM32 l2, ReLUM32]"
    and s1: "Linear_shape32 obs_dim hidden l1" and s2: "Linear_shape32 hidden hidden l2"
    by (rule constructed32_backbone)
  have "\<exists>z. Sequential_forward32 k (backbone32 self) obs = Inr z \<and> ncols32 z = hidden"
    unfolding b using s1 s2 n by (simp add: Linear_forward32_ok ReLU_forward32_def)
  then obtain z where z: "Sequential_forward32 k (backbone32 self) obs = Inr z"
    and nz: "ncols32 z = hidden"
    by blast
  have rz: "rws32 z = map (Sequential_row32 k (length (rws32 obs)) (backbone32 self)) (rws32 obs)"
    using Sequential_forward32_rows [OF z] .
  then have len: "length (rws32 z) = length (rws32 obs)" by simp
  have g: "Linear_shape32 hidden 1 (gamma_head32 self)"
    and v: "Linear_shape32 hidden 1 (value_head32 self)"
    using c by (simp_all add: constructed32_def)
  show ?thesis
    by (simp add: forward32_def z Linear_forward32_ok [OF g nz] Linear_forward32_ok [OF v nz]
        torch_sigmoid32_def len rz gamma_row32_def value_row32_def comp_def)
qed

lemma sequential_zero_exact: "zero_exact sequential"
proof -
  have acc: "foldl fp_add (Finite 0) (map2 fp_mul x w) = Finite 0"
    if "list_all is_finite x" and "list_all (\<lambda>c. c = Finite 0) w" for x w
    using that
  proof (induction w arbitrary: x)
    case Nil
    then show ?case by simp
  next
    case (Cons c w)
    show ?case
    proof (cases x)
      case Nil
      then show ?thesis by simp
    next
      case (Cons a x')
      with Cons.prems obtain r where "a = Finite r"
        by (cases a) simp_all
      with Cons.prems Cons.IH [of x'] Cons show ?thesis
        by (simp add: round32_0)
    qed
  qed
  have "fp_add (Finite 0) b = b" if "finite32 b" for b
    using that by (cases b) simp_all
  with acc show ?thesis
    by (simp add: zero_exact_def sequential_def)
qed

lemma linear_row32_zero_weight:
  assumes k: "zero_exact k" and s: "Linear_shape32 i out l" and z: "zero_weight32 l"
    and b: "list_all finite32 (bias32 l)" and x: "list_all is_finite x"
  shows "linear_row32 k B l x = bias32 l"
proof -
  have "map2 (k B x) W c = c"
    if "length W = length c" and "list_all (list_all (\<lambda>c. c = Finite 0)) W"
      and "list_all finite32 c" for W c
    using that
  proof (induction W c rule: list_induct2)
    case Nil
    then show ?case by simp
  next
    case (Cons w W c cs)
    then have "k B x w c = c"
      using k x by (simp add: zero_exact_def)
    with Cons show ?case by simp
  qed
  then show ?thesis
    using s z b
    by (simp add: linear_row32_def bias_entries32_def zero_weight32_def Linear_shape32_def
        out_features32_def)
qed

lemma finite32_is_finite: "list_all finite32 c \<Longrightarrow> list_all is_finite (map fp_relu c)"
proof (induction c)
  case Nil
  then show ?case by simp
next
  case (Cons a c)
  then show ?case by (cases a) simp_all
qed

lemma example_net32_constructed: "constructed32 2 2 example_net32"
  by (simp add: constructed32_def example_net32_def Linear_shape32_def in_features32_def
      out_features32_def wf_tensor32_def)

lemma zero_net32_constructed: "constructed32 2 2 zero_net32"
  by (simp add: constructed32_def zero_net32_def zero_l1_32_def zero_l2_32_def
      Linear_shape32_def in_features32_def out_features32_def wf_tensor32_def)



section \<open>The claims\<close>

text \<open>
  C1. For a network built by \<^verbatim>\<open>__init__(obs_dim, hidden)\<close> and a batch of shape
  \<open>(B, obs_dim)\<close>, \<^verbatim>\<open>forward\<close> returns the reference composition: first layer,
  rectified-linear activation, second layer, rectified-linear activation for the hidden
  representation, then the sigmoid of the gamma-head layer and the value-head layer
  without activation. It holds for every batch size, in particular for \<open>B \<ge> 1\<close>.
\<close>

theorem forward_is_reference:
  assumes c: "constructed obs_dim hidden self"
    and b: "backbone self = [LinearM l1, ReLUM, LinearM l2, ReLUM]"
    and sh: "shape obs = (B, obs_dim)" and wf: "wf_tensor obs"
  shows "fst (forward self obs) =
           Inr (forward_reference l1 l2 (gamma_head self) (value_head self) obs)"
proof -
  from c b have s1: "Linear_shape obs_dim hidden l1" and s2: "Linear_shape hidden hidden l2"
    and g: "Linear_shape hidden 1 (gamma_head self)"
    and v: "Linear_shape hidden 1 (value_head self)"
    by (simp_all add: constructed_def)
  from sh have n: "ncols obs = obs_dim"
    by (simp add: shape_def)
  have hid: "Sequential_row (backbone self) x =
      map relu (linear_layer l2 (map relu (linear_layer l1 x)))"
    (is "_ = ?h x") if "x \<in> set (rws obs)" for x
  proof -
    from that wf n have x: "length x = obs_dim"
      by (simp add: wf_tensor_def list_all_iff)
    have 1: "linear_row l1 x = linear_layer l1 x"
      using s1 x by (rule linear_row_is_linear_layer)
    have "length (map relu (linear_row l1 x)) = hidden"
      using s1 by (simp add: length_linear_row)
    with s2 have "linear_row l2 (map relu (linear_row l1 x)) =
        linear_layer l2 (map relu (linear_row l1 x))"
      by (rule linear_row_is_linear_layer)
    with 1 show ?thesis
      by (simp add: Sequential_row_def b)
  qed
  have len: "length (?h x) = hidden" for x
    using s2 by (simp add: linear_layer_def Linear_shape_def)
  have "gamma_row self x = map sigmoid (linear_layer (gamma_head self) (?h x))"
    and "value_row self x = linear_layer (value_head self) (?h x)"
    if "x \<in> set (rws obs)" for x
    using hid [OF that] linear_row_is_linear_layer [OF g len [of x]]
      linear_row_is_linear_layer [OF v len [of x]]
    by (simp_all add: gamma_row_def value_row_def)
  then show ?thesis
    by (simp add: forward_constructed [OF c n] forward_reference_def Let_def comp_def)
qed

theorem forward_is_reference_witness:
  "constructed 2 2 example_net \<and>
   backbone example_net = [LinearM example_l1, ReLUM, LinearM example_l2, ReLUM] \<and>
   shape example_obs = (2, 2) \<and> wf_tensor example_obs \<and>
   fst (forward example_net example_obs) =
     Inr (forward_reference example_l1 example_l2 (gamma_head example_net)
            (value_head example_net) example_obs)"
proof -
  have 1: "backbone example_net = [LinearM example_l1, ReLUM, LinearM example_l2, ReLUM]"
    by (simp add: example_net_def)
  have 2: "shape example_obs = (2, 2)"
    by (simp add: shape_def example_obs_def)
  have 3: "wf_tensor example_obs"
    by (simp add: wf_tensor_def example_obs_def)
  show ?thesis
    using forward_is_reference [OF example_net_constructed 1 2 3] example_net_constructed 1 2 3
    by simp
qed


text \<open>
  C2. The arbitration weight is not always strictly inside \<open>(0, 1)\<close>: on the network
  \<open>example_net32\<close> the observation \<open>(6, 0)\<close> gives the gamma-head the value 18, every
  intermediate value being a small integer that binary32 holds exactly, and the binary32
  sigmoid of 18 is exactly 1, since \<open>exp (- 18)\<close> is below half the spacing of binary32
  numbers above 1.
\<close>

theorem gamma_reaches_one:
  "fst (forward32 sequential example_net32 saturating_obs32) =
     Inr (\<lparr>ncols32 = 1, rws32 = [[Finite 1]]\<rparr>,
          \<lparr>ncols32 = 1, rws32 = [[Finite (- (15 / 2))]]\<rparr>)"
proof -
  have n: "ncols32 saturating_obs32 = 2"
    by (simp add: saturating_obs32_def)
  have "fp_sigmoid (Finite 18) = Finite 1"
    by (rule fp_sigmoid_saturates) simp
  then show ?thesis
    unfolding forward32_constructed [OF example_net32_constructed n]
    by (simp add: saturating_obs32_def example_net32_def gamma_row32_def value_row32_def
        Sequential_row32_def linear_row32_def bias_entries32_def out_features32_def
        sequential_def round32_values)
qed

text \<open>
  C3. For a network built by \<^verbatim>\<open>__init__(obs_dim, hidden)\<close> and a batch of shape
  \<open>(B, obs_dim)\<close>, \<^verbatim>\<open>forward\<close> returns a pair \<open>(\<gamma>, V)\<close>, both of shape \<open>(B, 1)\<close>
  with every row of length 1: the output batch size is the input batch size.
  It holds for every \<open>B\<close>, in particular for \<open>B \<ge> 1\<close>.
\<close>

theorem forward_shapes:
  assumes c: "constructed obs_dim hidden self" and sh: "shape obs = (B, obs_dim)"
  shows "\<exists>gamma V. fst (forward self obs) = Inr (gamma, V) \<and>
           shape gamma = (B, 1) \<and> shape V = (B, 1) \<and> wf_tensor gamma \<and> wf_tensor V"
proof -
  from sh have n: "ncols obs = obs_dim" and B: "length (rws obs) = B"
    by (simp_all add: shape_def)
  from c have g: "Linear_shape hidden 1 (gamma_head self)"
    and v: "Linear_shape hidden 1 (value_head self)"
    by (simp_all add: constructed_def)
  have "length (gamma_row self x) = 1" and "length (value_row self x) = 1" for x
    by (simp_all add: gamma_row_def value_row_def length_linear_row [OF g]
        length_linear_row [OF v])
  then show ?thesis
    by (simp add: forward_constructed [OF c n] shape_def wf_tensor_def list_all_iff B)
qed

theorem forward_shapes_witness:
  "constructed 2 2 example_net \<and> shape example_obs = (2, 2) \<and>
   (\<exists>gamma V. fst (forward example_net example_obs) = Inr (gamma, V) \<and>
      shape gamma = (2, 1) \<and> shape V = (2, 1) \<and> wf_tensor gamma \<and> wf_tensor V)"
proof -
  have sh: "shape example_obs = (2, 2)"
    by (simp add: shape_def example_obs_def)
  show ?thesis
    using forward_shapes [OF example_net_constructed sh] example_net_constructed sh
    by simp
qed




text \<open>
  C6. \<^verbatim>\<open>forward\<close> never changes the parameters: the module a call leaves behind,
  with the weights and biases of the backbone, the gamma-head and the value-head, is the
  module the call was made on, whether the call returns or raises.
\<close>

theorem forward_keeps_parameters:
  "snd (forward self obs) = self"
  by (simp add: forward_def Let_def split: sum.split)

text \<open>
  C7. On a network built by \<^verbatim>\<open>__init__(obs_dim, hidden)\<close>, \<^verbatim>\<open>forward\<close> called with
  an input whose last dimension is not \<open>obs_dim\<close> ends with the shape error of the first
  linear layer and returns no result.
\<close>

theorem forward_shape_mismatch:
  assumes "constructed obs_dim hidden self" and "ncols obs \<noteq> obs_dim"
  shows "fst (forward self obs) = Inl ShapeError"
  using assms by (simp add: forward_mismatch)

theorem forward_shape_mismatch_witness:
  "constructed 2 2 example_net \<and> ncols wide_obs \<noteq> 2 \<and>
   fst (forward example_net wide_obs) = Inl ShapeError"
proof -
  have n: "ncols wide_obs \<noteq> 2"
    by (simp add: wide_obs_def)
  show ?thesis
    using forward_shape_mismatch [OF example_net_constructed n] example_net_constructed n
    by simp
qed


text \<open>
  C8 as stated fails for an input with an infinite entry: with every weight zero the
  first layer multiplies zero by infinity, which is NaN, and NaN reaches both outputs
  instead of the sigmoid of the gamma-head bias and the value-head bias.
\<close>

theorem zero_weights_counterexample:
  "fst (forward32 sequential zero_net32 inf_obs32) =
     Inr (\<lparr>ncols32 = 1, rws32 = [[NaN]]\<rparr>, \<lparr>ncols32 = 1, rws32 = [[NaN]]\<rparr>) \<and>
   fst (forward32 sequential zero_net32 inf_obs32) \<noteq>
     Inr (\<lparr>ncols32 = 1,
            rws32 = replicate (length (rws32 inf_obs32))
                      (map fp_sigmoid (bias32 (gamma_head32 zero_net32)))\<rparr>,
          \<lparr>ncols32 = 1,
            rws32 = replicate (length (rws32 inf_obs32)) (bias32 (value_head32 zero_net32))\<rparr>)"
proof -
  have n: "ncols32 inf_obs32 = 2"
    by (simp add: inf_obs32_def)
  have "fp_sigmoid NaN = NaN"
    by (simp add: fp_sigmoid_def)
  then have "fst (forward32 sequential zero_net32 inf_obs32) =
      Inr (\<lparr>ncols32 = 1, rws32 = [[NaN]]\<rparr>, \<lparr>ncols32 = 1, rws32 = [[NaN]]\<rparr>)"
    unfolding forward32_constructed [OF zero_net32_constructed n]
    by (simp add: inf_obs32_def zero_net32_def zero_l1_32_def zero_l2_32_def gamma_row32_def
        value_row32_def Sequential_row32_def linear_row32_def bias_entries32_def
        out_features32_def sequential_def round32_values)
  then show ?thesis
    by (simp add: inf_obs32_def zero_net32_def)
qed

text \<open>
  C8, amended. On a network built by \<^verbatim>\<open>__init__(obs_dim, hidden)\<close> whose weight matrices
  are all zero and whose biases are finite binary32 values, every row of \<open>\<gamma>\<close> is the
  sigmoid of the gamma-head bias and every row of \<open>V\<close> is the value-head bias, for every
  input batch of finite entries, with any kernel that is exact on zero weights.
\<close>

theorem zero_weights_finite_input:
  assumes c: "constructed32 obs_dim hidden self"
    and b: "backbone32 self = [LinearM32 l1, ReLUM32, LinearM32 l2, ReLUM32]"
    and z: "zero_weight32 l1" "zero_weight32 l2"
      "zero_weight32 (gamma_head32 self)" "zero_weight32 (value_head32 self)"
    and f: "list_all finite32 (bias32 l1)" "list_all finite32 (bias32 l2)"
      "list_all finite32 (bias32 (gamma_head32 self))"
      "list_all finite32 (bias32 (value_head32 self))"
    and n: "ncols32 obs = obs_dim" and x: "list_all (list_all is_finite) (rws32 obs)"
    and k: "zero_exact k"
  shows "fst (forward32 k self obs) =
           Inr (\<lparr>ncols32 = 1,
                  rws32 = replicate (length (rws32 obs))
                            (map fp_sigmoid (bias32 (gamma_head32 self)))\<rparr>,
                \<lparr>ncols32 = 1,
                  rws32 = replicate (length (rws32 obs)) (bias32 (value_head32 self))\<rparr>)"
proof -
  let ?B = "length (rws32 obs)"
  from c b have s1: "Linear_shape32 obs_dim hidden l1" and s2: "Linear_shape32 hidden hidden l2"
    and g: "Linear_shape32 hidden 1 (gamma_head32 self)"
    and v: "Linear_shape32 hidden 1 (value_head32 self)"
    by (simp_all add: constructed32_def)
  have rows: "gamma_row32 k ?B self r = map fp_sigmoid (bias32 (gamma_head32 self)) \<and>
      value_row32 k ?B self r = bias32 (value_head32 self)" if r: "list_all is_finite r" for r
  proof -
    have 1: "linear_row32 k ?B l1 r = bias32 l1"
      using k s1 z(1) f(1) r by (rule linear_row32_zero_weight)
    have 2: "linear_row32 k ?B l2 (map fp_relu (bias32 l1)) = bias32 l2"
      using k s2 z(2) f(2) finite32_is_finite [OF f(1)] by (rule linear_row32_zero_weight)
    have h: "Sequential_row32 k ?B (backbone32 self) r = map fp_relu (bias32 l2)"
      by (simp add: Sequential_row32_def b 1 2)
    have "linear_row32 k ?B (gamma_head32 self) (map fp_relu (bias32 l2)) =
        bias32 (gamma_head32 self)"
      using k g z(3) f(3) finite32_is_finite [OF f(2)] by (rule linear_row32_zero_weight)
    moreover have "linear_row32 k ?B (value_head32 self) (map fp_relu (bias32 l2)) =
        bias32 (value_head32 self)"
      using k v z(4) f(4) finite32_is_finite [OF f(2)] by (rule linear_row32_zero_weight)
    ultimately show ?thesis
      by (simp add: gamma_row32_def value_row32_def h)
  qed
  have "map (gamma_row32 k ?B self) (rws32 obs) =
      replicate ?B (map fp_sigmoid (bias32 (gamma_head32 self)))"
    and "map (value_row32 k ?B self) (rws32 obs) = replicate ?B (bias32 (value_head32 self))"
    using x rows by (simp_all add: list_all_iff map_replicate_const [symmetric])
  then show ?thesis
    by (simp add: forward32_constructed [OF c n])
qed

theorem zero_weights_finite_input_witness:
  "constructed32 2 2 zero_net32 \<and>
   backbone32 zero_net32 = [LinearM32 zero_l1_32, ReLUM32, LinearM32 zero_l2_32, ReLUM32] \<and>
   zero_weight32 zero_l1_32 \<and> zero_weight32 zero_l2_32 \<and>
   zero_weight32 (gamma_head32 zero_net32) \<and> zero_weight32 (value_head32 zero_net32) \<and>
   list_all finite32 (bias32 zero_l1_32) \<and> list_all finite32 (bias32 zero_l2_32) \<and>
   list_all finite32 (bias32 (gamma_head32 zero_net32)) \<and>
   list_all finite32 (bias32 (value_head32 zero_net32)) \<and>
   ncols32 example_obs32 = 2 \<and> list_all (list_all is_finite) (rws32 example_obs32) \<and>
   zero_exact sequential \<and>
   fst (forward32 sequential zero_net32 example_obs32) =
     Inr (\<lparr>ncols32 = 1, rws32 = [[fp_sigmoid (Finite 1)], [fp_sigmoid (Finite 1)]]\<rparr>,
          \<lparr>ncols32 = 1, rws32 = [[Finite (1 / 2)], [Finite (1 / 2)]]\<rparr>)"
proof -
  have b: "backbone32 zero_net32 = [LinearM32 zero_l1_32, ReLUM32, LinearM32 zero_l2_32, ReLUM32]"
    by (simp add: zero_net32_def)
  have z: "zero_weight32 zero_l1_32" "zero_weight32 zero_l2_32"
    "zero_weight32 (gamma_head32 zero_net32)" "zero_weight32 (value_head32 zero_net32)"
    by (simp_all add: zero_weight32_def zero_net32_def zero_l1_32_def zero_l2_32_def)
  have f: "list_all finite32 (bias32 zero_l1_32)" "list_all finite32 (bias32 zero_l2_32)"
    "list_all finite32 (bias32 (gamma_head32 zero_net32))"
    "list_all finite32 (bias32 (value_head32 zero_net32))"
    by (simp_all add: zero_net32_def zero_l1_32_def zero_l2_32_def round32_values)
  have n: "ncols32 example_obs32 = 2"
    and x: "list_all (list_all is_finite) (rws32 example_obs32)"
    by (simp_all add: example_obs32_def)
  have "fst (forward32 sequential zero_net32 example_obs32) =
      Inr (\<lparr>ncols32 = 1, rws32 = [[fp_sigmoid (Finite 1)], [fp_sigmoid (Finite 1)]]\<rparr>,
           \<lparr>ncols32 = 1, rws32 = [[Finite (1 / 2)], [Finite (1 / 2)]]\<rparr>)"
    unfolding zero_weights_finite_input [OF zero_net32_constructed b z f n x sequential_zero_exact]
    by (simp add: zero_net32_def example_obs32_def numeral_2_eq_2)
  with zero_net32_constructed b z f n x sequential_zero_exact show ?thesis
    by simp
qed

text \<open>
  C9. Head noninterference: for two networks built by \<^verbatim>\<open>__init__(obs_dim, hidden)\<close>
  with the same backbone parameters, the \<open>\<gamma>\<close> that \<^verbatim>\<open>forward\<close> returns on an input is
  the same when they have the same gamma-head, whatever their value-heads, and the \<open>V\<close>
  it returns is the same when they have the same value-head, whatever their gamma-heads
  (an input both reject is rejected with the same error).
\<close>

theorem head_noninterference:
  assumes c: "constructed obs_dim hidden self" and c': "constructed obs_dim hidden self'"
    and b: "backbone self' = backbone self"
  shows "(gamma_head self' = gamma_head self \<longrightarrow>
            map_sum id fst (fst (forward self' obs)) = map_sum id fst (fst (forward self obs))) \<and>
         (value_head self' = value_head self \<longrightarrow>
            map_sum id snd (fst (forward self' obs)) = map_sum id snd (fst (forward self obs)))"
proof (cases "ncols obs = obs_dim")
  case True
  show ?thesis
    by (simp add: forward_constructed [OF c True] forward_constructed [OF c' True]
        gamma_row_def value_row_def b)
next
  case False
  show ?thesis
    by (simp add: forward_mismatch [OF c False] forward_mismatch [OF c' False])
qed

theorem head_noninterference_witness:
  "constructed 2 2 example_net \<and> constructed 2 2 other_value_net \<and>
   constructed 2 2 other_gamma_net \<and>
   backbone other_value_net = backbone example_net \<and>
   backbone other_gamma_net = backbone example_net \<and>
   gamma_head other_value_net = gamma_head example_net \<and>
   value_head other_value_net \<noteq> value_head example_net \<and>
   map_sum id fst (fst (forward other_value_net example_obs)) =
     map_sum id fst (fst (forward example_net example_obs)) \<and>
   value_head other_gamma_net = value_head example_net \<and>
   gamma_head other_gamma_net \<noteq> gamma_head example_net \<and>
   map_sum id snd (fst (forward other_gamma_net example_obs)) =
     map_sum id snd (fst (forward example_net example_obs))"
proof -
  have cv: "constructed 2 2 other_value_net" and cg: "constructed 2 2 other_gamma_net"
    by (simp_all add: constructed_def other_value_net_def other_gamma_net_def
        example_net_def example_l1_def example_l2_def
        Linear_shape_def in_features_def out_features_def wf_tensor_def)
  have bv: "backbone other_value_net = backbone example_net"
    and bg: "backbone other_gamma_net = backbone example_net"
    by (simp_all add: other_value_net_def other_gamma_net_def)
  have hv: "gamma_head other_value_net = gamma_head example_net"
    "value_head other_value_net \<noteq> value_head example_net"
    and hg: "value_head other_gamma_net = value_head example_net"
    "gamma_head other_gamma_net \<noteq> gamma_head example_net"
    by (simp_all add: other_value_net_def other_gamma_net_def example_net_def)
  show ?thesis
    using head_noninterference [OF example_net_constructed cv bv, of example_obs]
      head_noninterference [OF example_net_constructed cg bg, of example_obs]
      example_net_constructed cv cg bv bg hv hg
    by simp
qed

text \<open>
  C10. \<^verbatim>\<open>forward\<close> makes no check that the batch has a row: on a network built by
  \<^verbatim>\<open>__init__(obs_dim, hidden)\<close>, an input of shape \<open>(0, obs_dim)\<close> is accepted and
  \<open>\<gamma>\<close> and \<open>V\<close> are both returned with shape \<open>(0, 1)\<close>.
\<close>

theorem forward_empty_batch:
  assumes c: "constructed obs_dim hidden self" and sh: "shape obs = (0, obs_dim)"
  shows "\<exists>gamma V. fst (forward self obs) = Inr (gamma, V) \<and>
           shape gamma = (0, 1) \<and> shape V = (0, 1)"
proof -
  from sh have n: "ncols obs = obs_dim" and e: "rws obs = []"
    by (simp_all add: shape_def)
  show ?thesis
    by (simp add: forward_constructed [OF c n] e shape_def)
qed

theorem forward_empty_batch_witness:
  "constructed 2 2 example_net \<and> shape empty_obs = (0, 2) \<and>
   (\<exists>gamma V. fst (forward example_net empty_obs) = Inr (gamma, V) \<and>
      shape gamma = (0, 1) \<and> shape V = (0, 1))"
proof -
  have sh: "shape empty_obs = (0, 2)"
    by (simp add: shape_def empty_obs_def)
  show ?thesis
    using forward_empty_batch [OF example_net_constructed sh] example_net_constructed sh
    by simp
qed

end
